theory Spec2Isabelle
  imports Complex_Main "HOL-Library.Monad_Syntax"
begin

section \<open>Data model (\<open>types.ts\<close>)\<close>

text \<open>
  A TypeScript \<open>number\<close> is modelled as an exact \<^typ>\<open>real\<close>: the arithmetic of the
  model is the arithmetic of the formulas, without the rounding of IEEE doubles and
  without the values \<open>NaN\<close> and \<open>Infinity\<close>.

  \<open>ChartDataPoint\<close> shares the field names \<open>pv\<close>, \<open>ev\<close> and \<open>ac\<close> with
  \<open>EVMMetrics\<close>. It is declared first, so that the unqualified names denote the fields
  of \<open>EVMMetrics\<close> and the chart fields are written \<open>ChartDataPoint.pv\<close> and so on.
  Every field of a chart point is the result of \<open>Math.round\<close>, hence an integer.
\<close>

record ChartDataPoint =
  day :: int
  pv :: int
  ev :: int
  ac :: int

record EVMMetrics =
  pv :: real
  ev :: real
  ac :: real
  bac :: real
  totalDurationDays :: real
  elapsedDays :: real

record EVMResults =
  sv :: real
  spi :: real
  cv :: real
  cpi :: real
  eac :: real
  etc :: real
  vac :: real
  tcpi :: real
  estimatedCompletionDays :: real
  scheduleVarianceDays :: real

section \<open>Arithmetic of the source\<close>

text \<open>
  JavaScript's \<open>/\<close> never throws, but on a zero divisor its result is \<open>Infinity\<close>
  or \<open>NaN\<close>, which is no real number. The model makes that case explicit: a division
  by zero has no value (\<open>None\<close>), and whatever is computed from it has none either.
\<close>

definition js_div :: "real \<Rightarrow> real \<Rightarrow> real option" where
  "js_div a b = (if b = 0 then None else Some (a / b))"

text \<open>\<open>Math.round\<close> rounds to the nearest integer, a half towards plus infinity.\<close>

definition Math_round :: "real \<Rightarrow> int" where
  "Math_round x = \<lfloor>x + 1 / 2\<rfloor>"

section \<open>The metrics evaluator (\<open>results\<close> in \<open>App.tsx\<close>)\<close>

definition evaluate :: "EVMMetrics \<Rightarrow> EVMResults option" where
  "evaluate metrics = do {
     let sv = ev metrics - pv metrics;
     spi \<leftarrow> (if pv metrics = 0 then Some 1 else js_div (ev metrics) (pv metrics));
     let cv = ev metrics - ac metrics;
     cpi \<leftarrow> (if ac metrics = 0 then Some 1 else js_div (ev metrics) (ac metrics));
     eac \<leftarrow> (if cpi = 0 then Some (bac metrics) else js_div (bac metrics) cpi);
     let etc = eac - ac metrics;
     let vac = bac metrics - eac;
     let workRemaining = bac metrics - ev metrics;
     let fundsRemaining = bac metrics - ac metrics;
     tcpi \<leftarrow> (if fundsRemaining \<le> 0 then Some (if workRemaining > 0 then 9.99 else 0)
              else js_div workRemaining fundsRemaining);
     estimatedCompletionDays \<leftarrow>
       (if spi = 0 then Some (totalDurationDays metrics)
        else js_div (totalDurationDays metrics) spi);
     let scheduleVarianceDays = estimatedCompletionDays - totalDurationDays metrics;
     Some \<lparr>sv = sv, spi = spi, cv = cv, cpi = cpi, eac = eac, etc = etc, vac = vac,
           tcpi = tcpi, estimatedCompletionDays = estimatedCompletionDays,
           scheduleVarianceDays = scheduleVarianceDays\<rparr>
   }"

section \<open>The series interpolator (\<open>chartData\<close> in \<open>App.tsx\<close>)\<close>

text \<open>
  The \<open>for\<close> loop runs \<open>i\<close> from \<open>0\<close> to \<open>steps\<close> inclusive and pushes one point per
  round onto \<open>points\<close>. The loop is the recursive function \<open>chartData_loop\<close>, whose
  arguments are the loop variable and the array built so far.
\<close>

definition steps :: nat where
  "steps = 10"

function chartData_loop :: "EVMMetrics \<Rightarrow> real \<Rightarrow> nat \<Rightarrow> ChartDataPoint list
    \<Rightarrow> ChartDataPoint list option" where
  "chartData_loop metrics stepDays i points =
     (if i \<le> steps then do {
        let currentDay = Math_round (real i * stepDays);
        ratio \<leftarrow> js_div (real i) (real steps);
        chartData_loop metrics stepDays (Suc i)
          (points @ [\<lparr>day = currentDay,
                      ChartDataPoint.pv = Math_round (pv metrics * ratio),
                      ChartDataPoint.ev = Math_round (ev metrics * ratio),
                      ChartDataPoint.ac = Math_round (ac metrics * ratio)\<rparr>])
      } else Some points)"
  by pat_completeness auto
termination
  by (relation "measure (\<lambda>(metrics, stepDays, i, points). Suc steps - i)") auto

definition interpolateSeries :: "EVMMetrics \<Rightarrow> ChartDataPoint list option" where
  "interpolateSeries metrics = do {
     stepDays \<leftarrow> js_div (elapsedDays metrics) (real steps);
     chartData_loop metrics stepDays 0 []
   }"

text \<open>The initial state of the form, \<open>useState<EVMMetrics>\<close> in \<open>App.tsx\<close>.\<close>

definition initialMetrics :: EVMMetrics where
  "initialMetrics = \<lparr>pv = 100000, ev = 85000, ac = 95000, bac = 250000,
     totalDurationDays = 180, elapsedDays = 60\<rparr>"

section \<open>What the evaluator returns\<close>

text \<open>
  Every division of \<open>evaluate\<close> sits in the branch of a conditional that has excluded
  the zero divisor, so the evaluator always returns a record, and each field has the
  value of its formula.
\<close>

lemma evaluate_fields:
  "\<exists>r. evaluate m = Some r
     \<and> sv r = ev m - pv m
     \<and> spi r = (if pv m = 0 then 1 else ev m / pv m)
     \<and> cv r = ev m - ac m
     \<and> cpi r = (if ac m = 0 then 1 else ev m / ac m)
     \<and> eac r = (if cpi r = 0 then bac m else bac m / cpi r)
     \<and> etc r = eac r - ac m
     \<and> vac r = bac m - eac r
     \<and> tcpi r = (if bac m - ac m \<le> 0 then (if bac m - ev m > 0 then 9.99 else 0)
                 else (bac m - ev m) / (bac m - ac m))
     \<and> estimatedCompletionDays r =
          (if spi r = 0 then totalDurationDays m else totalDurationDays m / spi r)
     \<and> scheduleVarianceDays r = estimatedCompletionDays r - totalDurationDays m"
  by (simp add: evaluate_def js_div_def Let_def)

section \<open>What the interpolator returns\<close>

declare chartData_loop.simps [simp del]

text \<open>
  The loop invariant: started at \<open>i\<close> with the array \<open>pts\<close>, the loop appends the
  points of the steps \<open>i\<close> to \<open>steps\<close>, in order, and returns.
\<close>

lemma chartData_loop_closed:
  "i \<le> Suc steps \<Longrightarrow>
   chartData_loop m sd i pts =
     Some (pts @ map (\<lambda>k. \<lparr>day = Math_round (real k * sd),
                ChartDataPoint.pv = Math_round (pv m * (real k / real steps)),
                ChartDataPoint.ev = Math_round (ev m * (real k / real steps)),
                ChartDataPoint.ac = Math_round (ac m * (real k / real steps))\<rparr>)
             [i..<Suc steps])"
proof (induction "Suc steps - i" arbitrary: i pts)
  case 0
  then have "\<not> i \<le> steps" by simp
  then show ?case
    using 0 by (simp add: chartData_loop.simps [of m sd i pts])
next
  case (Suc n)
  then have le: "i \<le> steps" by simp
  have nz: "real steps \<noteq> 0" by (simp add: steps_def)
  have upt: "[i..<Suc steps] = i # [Suc i..<Suc steps]"
    using le by (simp add: upt_conv_Cons)
  have "n = Suc steps - Suc i" using Suc.hyps(2) by simp
  moreover have "Suc i \<le> Suc steps" using le by simp
  ultimately show ?case
    using le nz Suc.hyps(1) [of "Suc i"]
    by (simp add: chartData_loop.simps [of m sd i pts] js_div_def upt del: upt_Suc)
qed

lemma interpolateSeries_closed:
  "interpolateSeries m =
     Some (map (\<lambda>k. \<lparr>day = Math_round (real k * (elapsedDays m / real steps)),
                ChartDataPoint.pv = Math_round (pv m * (real k / real steps)),
                ChartDataPoint.ev = Math_round (ev m * (real k / real steps)),
                ChartDataPoint.ac = Math_round (ac m * (real k / real steps))\<rparr>)
             [0..<Suc steps])"
  using chartData_loop_closed [of 0 m "elapsedDays m / real steps" "[]"]
  by (simp add: interpolateSeries_def js_div_def steps_def del: upt_Suc)

lemma interpolateSeries_nth:
  assumes "i \<le> 10"
  shows "\<exists>ps. interpolateSeries m = Some ps \<and> length ps = 11
     \<and> ps ! i = \<lparr>day = Math_round (real i * elapsedDays m / 10),
                 ChartDataPoint.pv = Math_round (pv m * (real i / 10)),
                 ChartDataPoint.ev = Math_round (ev m * (real i / 10)),
                 ChartDataPoint.ac = Math_round (ac m * (real i / 10))\<rparr>"
proof -
  have "i < Suc steps" using assms by (simp add: steps_def)
  then have "map f [0..<Suc steps] ! i = f i" for f :: "nat \<Rightarrow> ChartDataPoint"
    by (simp only: nth_map_upt minus_nat.diff_0 add_0)
  then show ?thesis
    by (simp add: interpolateSeries_closed steps_def del: upt_Suc)
qed

lemma Math_round_mono: "x \<le> y \<Longrightarrow> Math_round x \<le> Math_round y"
  by (simp add: Math_round_def floor_mono)


section \<open>The claims about the evaluator\<close>

text \<open>
  C1. For every input, \<open>evaluate\<close> returns \<open>tcpi = (bac - ev) / (bac - ac)\<close> when
  \<open>bac - ac > 0\<close>; when \<open>bac - ac \<le> 0\<close> it returns \<open>tcpi = 9.99\<close> if \<open>bac - ev > 0\<close>
  and \<open>tcpi = 0\<close> otherwise. In particular \<open>tcpi = 9.99\<close> whenever \<open>ac = bac\<close> and
  \<open>ev < bac\<close>, and \<open>tcpi = 0\<close> whenever \<open>ac = bac\<close> and \<open>ev \<ge> bac\<close>.
\<close>

theorem evaluate_tcpi:
  "\<exists>r. evaluate m = Some r
     \<and> (bac m - ac m > 0 \<longrightarrow> tcpi r = (bac m - ev m) / (bac m - ac m))
     \<and> (bac m - ac m \<le> 0 \<and> bac m - ev m > 0 \<longrightarrow> tcpi r = 9.99)
     \<and> (bac m - ac m \<le> 0 \<and> \<not> bac m - ev m > 0 \<longrightarrow> tcpi r = 0)
     \<and> (ac m = bac m \<and> ev m < bac m \<longrightarrow> tcpi r = 9.99)
     \<and> (ac m = bac m \<and> ev m \<ge> bac m \<longrightarrow> tcpi r = 0)"
proof -
  obtain r where r: "evaluate m = Some r"
    and t: "tcpi r = (if bac m - ac m \<le> 0 then (if bac m - ev m > 0 then 9.99 else 0)
                 else (bac m - ev m) / (bac m - ac m))"
    using evaluate_fields [of m] by blast
  have "bac m - ac m > 0 \<longrightarrow> tcpi r = (bac m - ev m) / (bac m - ac m)"
    using t by simp
  moreover have "bac m - ac m \<le> 0 \<and> bac m - ev m > 0 \<longrightarrow> tcpi r = 9.99"
    using t by simp
  moreover have "bac m - ac m \<le> 0 \<and> \<not> bac m - ev m > 0 \<longrightarrow> tcpi r = 0"
    using t by simp
  moreover have "ac m = bac m \<and> ev m < bac m \<longrightarrow> tcpi r = 9.99"
    using t by simp
  moreover have "ac m = bac m \<and> ev m \<ge> bac m \<longrightarrow> tcpi r = 0"
    using t by simp
  ultimately show ?thesis using r by blast
qed

text \<open>
  The four cases at concrete inputs: funds remain; funds are exhausted and work
  remains (the scenario of the specification); funds are exhausted and no work
  remains; the budget is overrun and work remains.
\<close>

theorem evaluate_tcpi_witness:
  "(\<exists>r. evaluate initialMetrics = Some r \<and> tcpi r = 33 / 31)
   \<and> (\<exists>r. evaluate \<lparr>pv = 220000, ev = 200000, ac = 250000, bac = 250000,
                      totalDurationDays = 180, elapsedDays = 100\<rparr> = Some r \<and> tcpi r = 9.99)
   \<and> (\<exists>r. evaluate \<lparr>pv = 250000, ev = 250000, ac = 250000, bac = 250000,
                      totalDurationDays = 180, elapsedDays = 100\<rparr> = Some r \<and> tcpi r = 0)
   \<and> (\<exists>r. evaluate \<lparr>pv = 250000, ev = 240000, ac = 260000, bac = 250000,
                      totalDurationDays = 180, elapsedDays = 100\<rparr> = Some r \<and> tcpi r = 9.99)"
proof (intro conjI)
  show "\<exists>r. evaluate initialMetrics = Some r \<and> tcpi r = 33 / 31"
    using evaluate_tcpi [of initialMetrics] by (simp add: initialMetrics_def)
  show "\<exists>r. evaluate \<lparr>pv = 220000, ev = 200000, ac = 250000, bac = 250000,
                      totalDurationDays = 180, elapsedDays = 100\<rparr> = Some r \<and> tcpi r = 9.99"
    using evaluate_tcpi [of "\<lparr>pv = 220000, ev = 200000, ac = 250000, bac = 250000,
                      totalDurationDays = 180, elapsedDays = 100\<rparr>"] by simp
  show "\<exists>r. evaluate \<lparr>pv = 250000, ev = 250000, ac = 250000, bac = 250000,
                      totalDurationDays = 180, elapsedDays = 100\<rparr> = Some r \<and> tcpi r = 0"
    using evaluate_tcpi [of "\<lparr>pv = 250000, ev = 250000, ac = 250000, bac = 250000,
                      totalDurationDays = 180, elapsedDays = 100\<rparr>"] by simp
  show "\<exists>r. evaluate \<lparr>pv = 250000, ev = 240000, ac = 260000, bac = 250000,
                      totalDurationDays = 180, elapsedDays = 100\<rparr> = Some r \<and> tcpi r = 9.99"
    using evaluate_tcpi [of "\<lparr>pv = 250000, ev = 240000, ac = 260000, bac = 250000,
                      totalDurationDays = 180, elapsedDays = 100\<rparr>"] by simp
qed

text \<open>
  The exact results for the initial metrics \<open>{pv: 100000, ev: 85000, ac: 95000,
  bac: 250000, totalDurationDays: 180, elapsedDays: 60}\<close>.
\<close>

lemma evaluate_initialMetrics:
  "evaluate initialMetrics =
     Some \<lparr>sv = - 15000, spi = 17 / 20, cv = - 10000, cpi = 17 / 19,
           eac = 4750000 / 17, etc = 3135000 / 17, vac = - (500000 / 17),
           tcpi = 33 / 31, estimatedCompletionDays = 3600 / 17,
           scheduleVarianceDays = 540 / 17\<rparr>"
  by (simp add: evaluate_def initialMetrics_def js_div_def Let_def)

text \<open>
  C2, as amended. For the input \<open>{pv: 100000, ev: 85000, ac: 95000, bac: 250000,
  totalDurationDays: 180, elapsedDays: 60}\<close>, \<open>evaluate\<close> returns \<open>sv = -15000\<close>,
  \<open>spi \<approx> 0.85\<close>, \<open>cv = -10000\<close>, \<open>cpi \<approx> 0.894...\<close>, \<open>eac \<approx> 279411.76\<close>,
  \<open>vac \<approx> -29411.76\<close>, \<open>tcpi \<approx> 1.06...\<close>, \<open>estimatedCompletionDays \<approx> 211.76\<close> and
  \<open>scheduleVarianceDays \<approx> 31.76\<close>. A value written with \<open>d\<close> decimals is read as
  "within one unit of the last decimal given".
\<close>

theorem evaluate_scenario:
  "\<exists>r. evaluate initialMetrics = Some r
       \<and> sv r = - 15000 \<and> \<bar>spi r - 0.85\<bar> < 0.01
       \<and> cv r = - 10000 \<and> \<bar>cpi r - 0.894\<bar> < 0.001
       \<and> \<bar>eac r - 279411.76\<bar> < 0.01 \<and> \<bar>vac r - (- 29411.76)\<bar> < 0.01
       \<and> \<bar>tcpi r - 1.06\<bar> < 0.01
       \<and> \<bar>estimatedCompletionDays r - 211.76\<bar> < 0.01
       \<and> \<bar>scheduleVarianceDays r - 31.76\<bar> < 0.01"
  by (simp add: evaluate_initialMetrics)

text \<open>
  C2 as the specification states it, with \<open>eac \<approx> 279069.77\<close>, \<open>vac \<approx> -29069.77\<close> and
  \<open>tcpi \<approx> 1.25...\<close>, does not hold: \<open>eac = 250000 / (85000 / 95000) = 4750000 / 17\<close>,
  which is about \<open>279411.76\<close>, and \<open>tcpi = 165000 / 155000 = 33 / 31\<close>, which is about
  \<open>1.0645\<close>.
\<close>

theorem evaluate_scenario_counterexample:
  "\<not> (\<exists>r. evaluate initialMetrics = Some r
       \<and> sv r = - 15000 \<and> \<bar>spi r - 0.85\<bar> < 0.01
       \<and> cv r = - 10000 \<and> \<bar>cpi r - 0.894\<bar> < 0.001
       \<and> \<bar>eac r - 279069.77\<bar> < 0.01 \<and> \<bar>vac r - (- 29069.77)\<bar> < 0.01
       \<and> \<bar>tcpi r - 1.25\<bar> < 0.01
       \<and> \<bar>estimatedCompletionDays r - 211.76\<bar> < 0.01
       \<and> \<bar>scheduleVarianceDays r - 31.76\<bar> < 0.01)"
  by (simp add: evaluate_initialMetrics)

text \<open>
  C3. For every input with \<open>pv = 0\<close>, \<open>evaluate\<close> returns \<open>spi = 1\<close> and
  \<open>estimatedCompletionDays = totalDurationDays\<close>.
\<close>

theorem evaluate_zero_pv:
  assumes "pv m = 0"
  shows "\<exists>r. evaluate m = Some r \<and> spi r = 1
           \<and> estimatedCompletionDays r = totalDurationDays m"
proof -
  obtain r where "evaluate m = Some r"
    and "spi r = (if pv m = 0 then 1 else ev m / pv m)"
    and "estimatedCompletionDays r =
          (if spi r = 0 then totalDurationDays m else totalDurationDays m / spi r)"
    using evaluate_fields [of m] by blast
  with assms show ?thesis by simp
qed

theorem evaluate_zero_pv_witness:
  "\<exists>r. evaluate \<lparr>pv = 0, ev = 85000, ac = 95000, bac = 250000,
                  totalDurationDays = 180, elapsedDays = 60\<rparr> = Some r
       \<and> spi r = 1 \<and> estimatedCompletionDays r = 180"
  using evaluate_zero_pv [of "\<lparr>pv = 0, ev = 85000, ac = 95000, bac = 250000,
                  totalDurationDays = 180, elapsedDays = 60\<rparr>"]
  by simp

text \<open>
  C4. For every input with \<open>ac = 0\<close>, \<open>evaluate\<close> returns \<open>cpi = 1\<close> and \<open>eac = bac\<close>.
\<close>

theorem evaluate_zero_ac:
  assumes "ac m = 0"
  shows "\<exists>r. evaluate m = Some r \<and> cpi r = 1 \<and> eac r = bac m"
proof -
  obtain r where "evaluate m = Some r"
    and "cpi r = (if ac m = 0 then 1 else ev m / ac m)"
    and "eac r = (if cpi r = 0 then bac m else bac m / cpi r)"
    using evaluate_fields [of m] by blast
  with assms show ?thesis by simp
qed

theorem evaluate_zero_ac_witness:
  "\<exists>r. evaluate \<lparr>pv = 100000, ev = 85000, ac = 0, bac = 250000,
                  totalDurationDays = 180, elapsedDays = 60\<rparr> = Some r
       \<and> cpi r = 1 \<and> eac r = 250000"
  using evaluate_zero_ac [of "\<lparr>pv = 100000, ev = 85000, ac = 0, bac = 250000,
                  totalDurationDays = 180, elapsedDays = 60\<rparr>"]
  by simp



text \<open>
  C6. For every input, the record that \<open>evaluate\<close> returns satisfies
  \<open>etc = eac - ac\<close> and \<open>vac = bac - eac\<close>, with \<open>eac\<close> the field of the same record.
\<close>

theorem evaluate_etc_vac:
  "\<exists>r. evaluate m = Some r \<and> etc r = eac r - ac m \<and> vac r = bac m - eac r"
  using evaluate_fields [of m] by blast

section \<open>The claims about the interpolator\<close>



text \<open>
  C10. For every input with \<open>elapsedDays \<ge> 0\<close>, \<open>pv \<ge> 0\<close>, \<open>ev \<ge> 0\<close> and
  \<open>ac \<ge> 0\<close>, the series is nondecreasing in each field: for all steps \<open>i < j\<close>
  from 0 to 10, the day, \<open>pv\<close>, \<open>ev\<close> and \<open>ac\<close> of point \<open>i\<close> are at most those of
  point \<open>j\<close>.
\<close>

theorem interpolateSeries_monotone:
  assumes "elapsedDays m \<ge> 0" and "pv m \<ge> 0" and "ev m \<ge> 0" and "ac m \<ge> 0"
  shows "\<exists>ps. interpolateSeries m = Some ps \<and> length ps = 11
     \<and> (\<forall>i j. i < j \<and> j \<le> 10 \<longrightarrow>
           day (ps ! i) \<le> day (ps ! j)
         \<and> ChartDataPoint.pv (ps ! i) \<le> ChartDataPoint.pv (ps ! j)
         \<and> ChartDataPoint.ev (ps ! i) \<le> ChartDataPoint.ev (ps ! j)
         \<and> ChartDataPoint.ac (ps ! i) \<le> ChartDataPoint.ac (ps ! j))"
proof -
  obtain ps where ps: "interpolateSeries m = Some ps" and len: "length ps = 11"
    using interpolateSeries_nth [of 0 m] by auto
  have nth: "ps ! i = \<lparr>day = Math_round (real i * elapsedDays m / 10),
                 ChartDataPoint.pv = Math_round (pv m * (real i / 10)),
                 ChartDataPoint.ev = Math_round (ev m * (real i / 10)),
                 ChartDataPoint.ac = Math_round (ac m * (real i / 10))\<rparr>"
    if "i \<le> 10" for i
    using interpolateSeries_nth [OF that, of m] ps by simp
  have step: "day (ps ! i) \<le> day (ps ! j)
         \<and> ChartDataPoint.pv (ps ! i) \<le> ChartDataPoint.pv (ps ! j)
         \<and> ChartDataPoint.ev (ps ! i) \<le> ChartDataPoint.ev (ps ! j)
         \<and> ChartDataPoint.ac (ps ! i) \<le> ChartDataPoint.ac (ps ! j)"
    if "i < j" and "j \<le> 10" for i j
  proof -
    have ij: "real i \<le> real j" using that by simp
    have "i \<le> 10" using that by simp
    have d: "real i * elapsedDays m / 10 \<le> real j * elapsedDays m / 10"
      using ij assms(1) by (simp add: mult_right_mono)
    have scale: "x * (real i / 10) \<le> x * (real j / 10)" if "0 \<le> x" for x :: real
      using ij that by (simp add: mult_left_mono)
    show ?thesis
      using nth [OF \<open>i \<le> 10\<close>] nth [OF \<open>j \<le> 10\<close>] d scale assms
      by (simp add: Math_round_mono)
  qed
  show ?thesis using ps len step by blast
qed

theorem interpolateSeries_monotone_witness:
  "\<exists>ps. interpolateSeries initialMetrics = Some ps
     \<and> day (ps ! 3) \<le> day (ps ! 4)
     \<and> ChartDataPoint.pv (ps ! 3) \<le> ChartDataPoint.pv (ps ! 4)
     \<and> ChartDataPoint.ev (ps ! 3) \<le> ChartDataPoint.ev (ps ! 4)
     \<and> ChartDataPoint.ac (ps ! 3) \<le> ChartDataPoint.ac (ps ! 4)"
proof -
  have "elapsedDays initialMetrics \<ge> 0" and "pv initialMetrics \<ge> 0"
    and "ev initialMetrics \<ge> 0" and "ac initialMetrics \<ge> 0"
    by (simp_all add: initialMetrics_def)
  from interpolateSeries_monotone [OF this]
  obtain ps where ps: "interpolateSeries initialMetrics = Some ps"
    and mono: "\<forall>i j. i < j \<and> j \<le> 10 \<longrightarrow>
           day (ps ! i) \<le> day (ps ! j)
         \<and> ChartDataPoint.pv (ps ! i) \<le> ChartDataPoint.pv (ps ! j)
         \<and> ChartDataPoint.ev (ps ! i) \<le> ChartDataPoint.ev (ps ! j)
         \<and> ChartDataPoint.ac (ps ! i) \<le> ChartDataPoint.ac (ps ! j)"
    by blast
  have "(3::nat) < 4 \<and> (4::nat) \<le> 10" by simp
  with mono have "day (ps ! 3) \<le> day (ps ! 4)
         \<and> ChartDataPoint.pv (ps ! 3) \<le> ChartDataPoint.pv (ps ! 4)
         \<and> ChartDataPoint.ev (ps ! 3) \<le> ChartDataPoint.ev (ps ! 4)
         \<and> ChartDataPoint.ac (ps ! 3) \<le> ChartDataPoint.ac (ps ! 4)"
    by blast
  with ps show ?thesis by blast
qed

section \<open>The claims about both functions\<close>

text \<open>
  C8. Both functions are total: for every input, with negative, zero or inconsistent
  fields as well, \<open>evaluate\<close> returns a record and \<open>interpolateSeries\<close> returns a
  series. No division of either function meets a zero divisor.
\<close>

theorem evaluate_interpolateSeries_total:
  "(\<exists>r. evaluate m = Some r) \<and> (\<exists>ps. interpolateSeries m = Some ps)"
  using evaluate_fields [of m] interpolateSeries_closed [of m] by blast

text \<open>
  C9. The result of \<open>evaluate\<close> does not depend on \<open>elapsedDays\<close>: two inputs that
  agree on \<open>pv\<close>, \<open>ev\<close>, \<open>ac\<close>, \<open>bac\<close> and \<open>totalDurationDays\<close> have the same
  results. The result of \<open>interpolateSeries\<close> depends on neither \<open>bac\<close> nor
  \<open>totalDurationDays\<close>: two inputs that agree on \<open>pv\<close>, \<open>ev\<close>, \<open>ac\<close> and
  \<open>elapsedDays\<close> have the same series.
\<close>

theorem evaluate_interpolateSeries_independent:
  "(pv m1 = pv m2 \<and> ev m1 = ev m2 \<and> ac m1 = ac m2 \<and> bac m1 = bac m2
      \<and> totalDurationDays m1 = totalDurationDays m2
      \<longrightarrow> evaluate m1 = evaluate m2)
   \<and> (pv m1 = pv m2 \<and> ev m1 = ev m2 \<and> ac m1 = ac m2 \<and> elapsedDays m1 = elapsedDays m2
      \<longrightarrow> interpolateSeries m1 = interpolateSeries m2)"
proof (intro conjI impI)
  assume "pv m1 = pv m2 \<and> ev m1 = ev m2 \<and> ac m1 = ac m2 \<and> bac m1 = bac m2
      \<and> totalDurationDays m1 = totalDurationDays m2"
  then show "evaluate m1 = evaluate m2"
    by (simp add: evaluate_def cong: if_cong)
next
  assume "pv m1 = pv m2 \<and> ev m1 = ev m2 \<and> ac m1 = ac m2 \<and> elapsedDays m1 = elapsedDays m2"
  then show "interpolateSeries m1 = interpolateSeries m2"
    by (simp add: interpolateSeries_closed del: upt_Suc)
qed

theorem evaluate_interpolateSeries_independent_witness:
  "initialMetrics\<lparr>elapsedDays := 120\<rparr> \<noteq> initialMetrics
   \<and> evaluate (initialMetrics\<lparr>elapsedDays := 120\<rparr>) = evaluate initialMetrics
   \<and> initialMetrics\<lparr>bac := 300000, totalDurationDays := 200\<rparr> \<noteq> initialMetrics
   \<and> interpolateSeries (initialMetrics\<lparr>bac := 300000, totalDurationDays := 200\<rparr>)
       = interpolateSeries initialMetrics"
  using evaluate_interpolateSeries_independent
          [of "initialMetrics\<lparr>elapsedDays := 120\<rparr>" initialMetrics]
        evaluate_interpolateSeries_independent
          [of "initialMetrics\<lparr>bac := 300000, totalDurationDays := 200\<rparr>" initialMetrics]
  by (simp add: initialMetrics_def)

end
